theory Spec2Isabelle
  imports Complex_Main "HOL-Library.Char_ord" "HOL-Library.List_Lexorder"
begin

section \<open>Data model\<close>

text \<open>
  The Python sources under \<^verbatim>\<open>src/src\<close> are embedded as HOL functions.
  A coordinate is a Python \<^verbatim>\<open>float\<close> (or \<^verbatim>\<open>int\<close>); it is modelled by a
  real number, which leaves rounding, infinities and NaN out of the model. The
  geometry code only compares, adds and subtracts integers, so on finite inputs
  the order-theoretic facts below do not depend on rounding.
  Exceptions are values of \<open>py_error\<close>, returned as \<open>Inl\<close>.
\<close>

datatype py_error = ValueError | IndexError | TypeError | FileNotFoundError

text \<open>Sequencing of two computations that may raise: the first exception wins.\<close>

definition bind_err :: "'e + 'a \<Rightarrow> ('a \<Rightarrow> 'e + 'b) \<Rightarrow> 'e + 'b" where
  "bind_err m f = (case m of Inl e \<Rightarrow> Inl e | Inr v \<Rightarrow> f v)"

type_synonym point = "real \<times> real"

section \<open>Python built-ins used by the sources\<close>

text \<open>
  \<^verbatim>\<open>min(xs)\<close> and \<^verbatim>\<open>max(xs)\<close> raise \<^verbatim>\<open>ValueError\<close> on an empty
  sequence; otherwise they scan from the left and replace the running value
  only by a strictly smaller (larger) item.
\<close>

fun py_min :: "real list \<Rightarrow> py_error + real" where
  "py_min [] = Inl ValueError"
| "py_min (x # xs) = Inr (foldl (\<lambda>m y. if y < m then y else m) x xs)"

fun py_max :: "real list \<Rightarrow> py_error + real" where
  "py_max [] = Inl ValueError"
| "py_max (x # xs) = Inr (foldl (\<lambda>m y. if m < y then y else m) x xs)"

text \<open>\<^verbatim>\<open>int(x)\<close> on a float truncates towards zero.\<close>

definition py_int :: "real \<Rightarrow> int" where
  "py_int x = (if 0 \<le> x then \<lfloor>x\<rfloor> else \<lceil>x\<rceil>)"

section \<open>utils.py: geometry\<close>

text \<open>
  \<^verbatim>\<open>adjust_coordinates\<close> (utils.py, lines 64--107). The two list
  comprehensions, the four calls of \<^verbatim>\<open>min\<close>/\<^verbatim>\<open>max\<close> in source order, the
  four clamps and the rectangle in its winding order.
\<close>

definition adjust_coordinates ::
  "point list \<Rightarrow> int \<Rightarrow> int \<Rightarrow> int \<Rightarrow> int \<Rightarrow> int \<Rightarrow> int \<Rightarrow> py_error + point list" where
  "adjust_coordinates coordinates left_adjust right_adjust top_adjust bottom_adjust
       image_width image_height =
     (let xs = map fst coordinates;
          ys = map snd coordinates
      in case py_min xs of Inl e \<Rightarrow> Inl e | Inr min_x \<Rightarrow>
         (case py_max xs of Inl e \<Rightarrow> Inl e | Inr max_x \<Rightarrow>
         (case py_min ys of Inl e \<Rightarrow> Inl e | Inr min_y \<Rightarrow>
         (case py_max ys of Inl e \<Rightarrow> Inl e | Inr max_y \<Rightarrow>
            (let new_min_x = max 0 (min_x - real_of_int left_adjust);
                 new_max_x = min (real_of_int image_width) (max_x + real_of_int right_adjust);
                 new_min_y = max 0 (min_y - real_of_int top_adjust);
                 new_max_y = min (real_of_int image_height) (max_y + real_of_int bottom_adjust)
             in Inr [(new_min_x, new_min_y),
                     (new_max_x, new_min_y),
                     (new_max_x, new_max_y),
                     (new_min_x, new_max_y)])))))"

text \<open>\<^verbatim>\<open>get_bounding_box_size\<close> (utils.py, lines 110--126).\<close>

definition get_bounding_box_size :: "point list \<Rightarrow> py_error + (int \<times> int)" where
  "get_bounding_box_size coordinates =
     (let xs = map fst coordinates;
          ys = map snd coordinates
      in case py_max xs of Inl e \<Rightarrow> Inl e | Inr max_x \<Rightarrow>
         (case py_min xs of Inl e \<Rightarrow> Inl e | Inr min_x \<Rightarrow>
         (case py_max ys of Inl e \<Rightarrow> Inl e | Inr max_y \<Rightarrow>
         (case py_min ys of Inl e \<Rightarrow> Inl e | Inr min_y \<Rightarrow>
            (let width = max_x - min_x;
                 height = max_y - min_y
             in Inr (py_int width, py_int height))))))"

text \<open>
  The bounding box of a polygon as \<^verbatim>\<open>parse_region\<close> computes it
  (parser.py, lines 124--126): \<^verbatim>\<open>(min(xs), min(ys), max(xs), max(ys))\<close>.
\<close>

definition region_bbox :: "point list \<Rightarrow> py_error + (real \<times> real \<times> real \<times> real)" where
  "region_bbox coordinates =
     (let xs = map fst coordinates;
          ys = map snd coordinates
      in case py_min xs of Inl e \<Rightarrow> Inl e | Inr min_x \<Rightarrow>
         (case py_min ys of Inl e \<Rightarrow> Inl e | Inr min_y \<Rightarrow>
         (case py_max xs of Inl e \<Rightarrow> Inl e | Inr max_x \<Rightarrow>
         (case py_max ys of Inl e \<Rightarrow> Inl e | Inr max_y \<Rightarrow>
            Inr (min_x, min_y, max_x, max_y)))))"


text \<open>
  The same function over an explicit store of list objects, to state what it
  writes. A store is the list of all list objects allocated so far; a reference
  is an index into it; a tuple is immutable and is a value. The function reads
  the list behind \<open>coordinates\<close>, allocates the two comprehension lists
  \<^verbatim>\<open>xs\<close> and \<^verbatim>\<open>ys\<close>, and allocates the list it returns; it contains no
  assignment to an existing object. Indexing a float (a list that does not hold
  pairs) raises \<^verbatim>\<open>TypeError\<close>.
\<close>

datatype pyobj = Points "point list" | Floats "real list"

type_synonym store = "pyobj list"

definition alloc :: "store \<Rightarrow> pyobj \<Rightarrow> store \<times> nat" where
  "alloc s v = (s @ [v], length s)"

definition adjust_coordinates_st ::
  "store \<Rightarrow> nat \<Rightarrow> int \<Rightarrow> int \<Rightarrow> int \<Rightarrow> int \<Rightarrow> int \<Rightarrow> int \<Rightarrow> py_error + (store \<times> nat)" where
  "adjust_coordinates_st s coordinates left_adjust right_adjust top_adjust bottom_adjust
       image_width image_height =
     (case s ! coordinates of
        Floats _ \<Rightarrow> Inl TypeError
      | Points cs \<Rightarrow>
          (let (s1, xs) = alloc s (Floats (map fst cs));
               (s2, ys) = alloc s1 (Floats (map snd cs))
           in case adjust_coordinates cs left_adjust right_adjust top_adjust bottom_adjust
                     image_width image_height of
                Inl e \<Rightarrow> Inl e
              | Inr rect \<Rightarrow> Inr (alloc s2 (Points rect))))"

subsection \<open>Notions of the specification\<close>

text \<open>
  "The point lies within the image", \<open>[0, imageWidth]\<close> by
  \<open>[0, imageHeight]\<close>. This follows the specification's words, not the code.
\<close>

definition within_image :: "int \<Rightarrow> int \<Rightarrow> point \<Rightarrow> bool" where
  "within_image image_width image_height p =
     (0 \<le> fst p \<and> fst p \<le> real_of_int image_width \<and>
      0 \<le> snd p \<and> snd p \<le> real_of_int image_height)"

section \<open>utils.py: edit tracking\<close>

text \<open>
  An element is the dictionary that \<^verbatim>\<open>parse_single_tiff\<close> builds
  (parser.py, lines 54--63), with the keys \<^verbatim>\<open>'type'\<close>, \<^verbatim>\<open>'text'\<close> and
  \<^verbatim>\<open>'coordinates'\<close>; \<^verbatim>\<open>None\<close> coordinates are \<open>None\<close>. A string is a list
  of characters; a character outside ASCII is written as its UTF-8 bytes.

  The element dictionaries are mutable objects that several lists may share, so
  they live in a heap: the heap is the list of all element objects allocated so
  far and a reference is an index into it. A list of elements is a list of
  references. No function of the repository inserts into, deletes from or
  reorders a list of elements, and none writes into a coordinates list, so
  element lists and coordinates lists are values.
\<close>

record element =
  elem_type :: string
  elem_text :: string
  elem_coordinates :: "point list option"

type_synonym heap = "element list"

text \<open>The result of \<^verbatim>\<open>parse_single_tiff\<close> (parser.py, lines 68--73).\<close>

record parse_result =
  filename :: string
  filepath :: string
  elements :: "nat list"
  full_text :: string

text \<open>The dictionary that \<^verbatim>\<open>initialize_edit_tracking\<close> returns.\<close>

record edit_tracking =
  original :: "nat list"
  current :: "nat list"
  edited_indices :: "int set"

text \<open>
  \<^verbatim>\<open>copy.deepcopy\<close> of a list of element dictionaries. Strings and tuples
  of floats are immutable, so a copied dictionary is a new object with the
  same field values. The memo of one \<^verbatim>\<open>deepcopy\<close> call maps every object
  already copied to its copy: an element that occurs twice in the list is copied
  once, and the copy occurs twice.
\<close>

fun deepcopy_elements :: "heap \<Rightarrow> (nat \<rightharpoonup> nat) \<Rightarrow> nat list \<Rightarrow> heap \<times> nat list" where
  "deepcopy_elements h memo [] = (h, [])"
| "deepcopy_elements h memo (r # rs) =
     (case memo r of
        Some r' \<Rightarrow>
          (let (h', rs') = deepcopy_elements h memo rs in (h', r' # rs'))
      | None \<Rightarrow>
          (let (h', rs') = deepcopy_elements (h @ [h ! r]) (memo(r \<mapsto> length h)) rs
           in (h', length h # rs')))"

definition deepcopy :: "heap \<Rightarrow> nat list \<Rightarrow> heap \<times> nat list" where
  "deepcopy h rs = deepcopy_elements h Map.empty rs"

text \<open>\<^verbatim>\<open>initialize_edit_tracking\<close> (utils.py, lines 5--19).\<close>

definition initialize_edit_tracking :: "heap \<Rightarrow> parse_result \<Rightarrow> heap \<times> edit_tracking" where
  "initialize_edit_tracking h file_data =
     (let (h1, orig) = deepcopy h (elements file_data);
          (h2, cur) = deepcopy h1 (elements file_data)
      in (h2, \<lparr>original = orig, current = cur, edited_indices = {}\<rparr>))"

text \<open>
  \<^verbatim>\<open>update_element_type\<close> (utils.py, lines 22--40) and
  \<^verbatim>\<open>replace_element_with_reparsed\<close> (lines 43--61). Each writes one key of
  the dictionary behind \<^verbatim>\<open>elements[element_index]\<close> in place and returns the
  list it was given. Neither contains a statement that can raise on a list of
  element dictionaries, so the model has no error branch.
\<close>

definition update_element_type :: "heap \<Rightarrow> nat list \<Rightarrow> int \<Rightarrow> string \<Rightarrow> heap \<times> nat list" where
  "update_element_type h elems element_index new_type =
     (if 0 \<le> element_index \<and> element_index < int (length elems)
      then (h[elems ! nat element_index :=
                (h ! (elems ! nat element_index))\<lparr>elem_type := new_type\<rparr>], elems)
      else (h, elems))"

definition replace_element_with_reparsed :: "heap \<Rightarrow> nat list \<Rightarrow> int \<Rightarrow> string \<Rightarrow> heap \<times> nat list" where
  "replace_element_with_reparsed h elems element_index new_text =
     (if 0 \<le> element_index \<and> element_index < int (length elems)
      then (h[elems ! nat element_index :=
                (h ! (elems ! nat element_index))\<lparr>elem_text := new_text\<rparr>], elems)
      else (h, elems))"

subsection \<open>Strings and indexing\<close>

text \<open>
  \<^verbatim>\<open>xs[i]\<close>: a negative index counts from the end, an index out of range
  raises \<^verbatim>\<open>IndexError\<close>.
\<close>

definition py_index :: "'a list \<Rightarrow> int \<Rightarrow> py_error + 'a" where
  "py_index xs i =
     (if i < - int (length xs) \<or> int (length xs) \<le> i then Inl IndexError
      else if i < 0 then Inr (xs ! nat (int (length xs) + i))
      else Inr (xs ! nat i))"

text \<open>\<^verbatim>\<open>sep.join(parts)\<close>.\<close>

fun join :: "string \<Rightarrow> string list \<Rightarrow> string" where
  "join sep [] = []"
| "join sep [x] = x"
| "join sep (x # y # ys) = x @ sep @ join sep (y # ys)"

text \<open>\<^verbatim>\<open>str(n)\<close> of an integer, as an f-string formats it: decimal digits.\<close>

fun digits :: "nat \<Rightarrow> string" where
  "digits n =
     (if n < 10 then [''0123456789'' ! n]
      else digits (n div 10) @ [''0123456789'' ! (n mod 10)])"

declare digits.simps [simp del]

definition py_str :: "int \<Rightarrow> string" where
  "py_str i = (if i < 0 then CHR ''-'' # digits (nat (- i)) else digits (nat i))"

text \<open>The arrow U+2192 of the summary line, in UTF-8; the line feed.\<close>

definition arrow :: string where
  "arrow = [CHR 0xE2, CHR 0x86, CHR 0x92]"

definition newline :: string where
  "newline = [CHR 0x0A]"

subsection \<open>The edit summary\<close>

text \<open>
  \<^verbatim>\<open>get_edit_summary\<close> (utils.py, lines 129--156). \<open>element_changes\<close> is
  the list \<^verbatim>\<open>changes\<close> of one iteration (lines 147--151), \<open>summary_loop\<close>
  the \<^verbatim>\<open>for\<close> loop over the sorted indices with its accumulator
  \<^verbatim>\<open>summary_parts\<close>. A Python set is finite; \<^verbatim>\<open>sorted\<close> of it is
  \<open>sorted_list_of_set\<close>.
\<close>

definition element_changes :: "element \<Rightarrow> element \<Rightarrow> string list" where
  "element_changes orig cur =
     (if elem_type orig \<noteq> elem_type cur
      then [''Type: '' @ elem_type orig @ '' '' @ arrow @ '' '' @ elem_type cur] else []) @
     (if elem_text orig \<noteq> elem_text cur then [''Text modified''] else [])"

fun summary_loop :: "heap \<Rightarrow> edit_tracking \<Rightarrow> int list \<Rightarrow> string list \<Rightarrow> py_error + string list" where
  "summary_loop h et [] summary_parts = Inr summary_parts"
| "summary_loop h et (idx # rest) summary_parts =
     (case py_index (original et) idx of Inl e \<Rightarrow> Inl e | Inr orig \<Rightarrow>
     (case py_index (current et) idx of Inl e \<Rightarrow> Inl e | Inr cur \<Rightarrow>
        (let changes = element_changes (h ! orig) (h ! cur)
         in summary_loop h et rest
              (if changes \<noteq> []
               then summary_parts @ [''Element '' @ py_str (idx + 1) @ '': '' @ join '', '' changes]
               else summary_parts))))"

definition get_edit_summary :: "heap \<Rightarrow> edit_tracking \<Rightarrow> py_error + string" where
  "get_edit_summary h et =
     (if edited_indices et = {} then Inr ''No edits made''
      else case summary_loop h et (sorted_list_of_set (edited_indices et)) [] of
             Inl e \<Rightarrow> Inl e
           | Inr summary_parts \<Rightarrow> Inr (join newline summary_parts))"

section \<open>interactive\_ui.py: the edit handlers\<close>

text \<open>
  The three places of \<^verbatim>\<open>main\<close> that change an edit-tracking record, and
  the one that reads it.

  \<^item> "Update Type" (lines 195--202): \<^verbatim>\<open>update_element_type\<close> on
    \<^verbatim>\<open>current\<close>, then \<^verbatim>\<open>edited_indices.add(idx)\<close>.
  \<^item> "Re-parse with Adjusted Region" (lines 294--312), a \<^verbatim>\<open>try\<close> block whose
    handler only displays the error. \<open>parsed\<close> is what \<^verbatim>\<open>parse_region\<close>
    (an external extraction call) returned or raised. After it,
    \<^verbatim>\<open>replace_element_with_reparsed\<close> on \<^verbatim>\<open>current\<close>, the assignment
    \<^verbatim>\<open>edit_tracking['current'][idx]['coordinates'] = adjusted_coords\<close>, which
    indexes the list as Python does, and \<^verbatim>\<open>edited_indices.add(idx)\<close>.
  \<^item> The edit summary (lines 321--324) calls \<^verbatim>\<open>get_edit_summary\<close> and
    displays its result.
  \<^item> "Reset All Edits" (lines 327--328) stores
    \<^verbatim>\<open>initialize_edit_tracking(file_data)\<close>.
\<close>

definition ui_update_type :: "heap \<times> edit_tracking \<Rightarrow> int \<Rightarrow> string \<Rightarrow> heap \<times> edit_tracking" where
  "ui_update_type st idx new_type =
     (let (h, et) = st;
          (h1, cur) = update_element_type h (current et) idx new_type
      in (h1, et\<lparr>current := cur, edited_indices := insert idx (edited_indices et)\<rparr>))"

definition ui_reparse ::
  "heap \<times> edit_tracking \<Rightarrow> int \<Rightarrow> py_error + string \<Rightarrow> point list \<Rightarrow> heap \<times> edit_tracking" where
  "ui_reparse st idx parsed adjusted_coords =
     (let (h, et) = st
      in case parsed of
           Inl e \<Rightarrow> (h, et)
         | Inr new_text \<Rightarrow>
             (let (h1, cur) = replace_element_with_reparsed h (current et) idx new_text;
                  et1 = et\<lparr>current := cur\<rparr>
              in case py_index (current et1) idx of
                   Inl e \<Rightarrow> (h1, et1)
                 | Inr r \<Rightarrow>
                     (h1[r := (h1 ! r)\<lparr>elem_coordinates := Some adjusted_coords\<rparr>],
                      et1\<lparr>edited_indices := insert idx (edited_indices et1)\<rparr>)))"

definition ui_reset :: "heap \<times> edit_tracking \<Rightarrow> parse_result \<Rightarrow> heap \<times> edit_tracking" where
  "ui_reset st file_data = (let (h, et) = st in initialize_edit_tracking h file_data)"

datatype ui_event =
    UpdateType int string
  | Reparse int "py_error + string" "point list"
  | Summary

fun ui_step :: "heap \<times> edit_tracking \<Rightarrow> ui_event \<Rightarrow> heap \<times> edit_tracking" where
  "ui_step st (UpdateType idx new_type) = ui_update_type st idx new_type"
| "ui_step st (Reparse idx parsed adjusted_coords) = ui_reparse st idx parsed adjusted_coords"
| "ui_step st Summary = (let summary = get_edit_summary (fst st) (snd st) in st)"

definition ui_run :: "heap \<times> edit_tracking \<Rightarrow> ui_event list \<Rightarrow> heap \<times> edit_tracking" where
  "ui_run st evs = foldl ui_step st evs"

section \<open>visualizer.py: the overlay renderer\<close>

text \<open>
  The palettes (visualizer.py, lines 6--53) as association lists, and
  \<^verbatim>\<open>get_color_scheme\<close> (line 66), which falls back to the palette
  \<^verbatim>\<open>'Default'\<close> for an unknown name.
\<close>

type_synonym rgb = "nat \<times> nat \<times> nat"

definition COLOR_SCHEMES :: "(string \<times> (string \<times> rgb) list) list" where
  "COLOR_SCHEMES =
     [(''Default'',
        [(''Title'', (255, 0, 0)), (''NarrativeText'', (0, 255, 0)), (''ListItem'', (0, 0, 255)),
         (''Table'', (255, 165, 0)), (''Image'', (255, 0, 255)), (''Header'', (255, 255, 0)),
         (''Footer'', (0, 255, 255)), (''PageBreak'', (128, 128, 128)),
         (''UncategorizedText'', (128, 0, 128))]),
      (''High Contrast'',
        [(''Title'', (255, 0, 0)), (''NarrativeText'', (0, 255, 0)), (''ListItem'', (0, 0, 255)),
         (''Table'', (255, 255, 0)), (''Image'', (255, 0, 255)), (''Header'', (0, 255, 255)),
         (''Footer'', (255, 128, 0)), (''PageBreak'', (255, 255, 255)),
         (''UncategorizedText'', (128, 255, 128))]),
      (''Pastel'',
        [(''Title'', (255, 182, 193)), (''NarrativeText'', (173, 216, 230)),
         (''ListItem'', (221, 160, 221)), (''Table'', (255, 218, 185)),
         (''Image'', (216, 191, 216)), (''Header'', (255, 250, 205)),
         (''Footer'', (176, 224, 230)), (''PageBreak'', (211, 211, 211)),
         (''UncategorizedText'', (255, 228, 196))]),
      (''Monochrome'',
        [(''Title'', (255, 255, 255)), (''NarrativeText'', (220, 220, 220)),
         (''ListItem'', (180, 180, 180)), (''Table'', (140, 140, 140)),
         (''Image'', (100, 100, 100)), (''Header'', (255, 255, 255)),
         (''Footer'', (200, 200, 200)), (''PageBreak'', (160, 160, 160)),
         (''UncategorizedText'', (120, 120, 120))])]"

definition DEFAULT_COLOR :: rgb where
  "DEFAULT_COLOR = (255, 100, 100)"

definition get_color_scheme :: "string \<Rightarrow> (string \<times> rgb) list" where
  "get_color_scheme scheme_name =
     (case map_of COLOR_SCHEMES scheme_name of
        Some scheme \<Rightarrow> scheme
      | None \<Rightarrow> the (map_of COLOR_SCHEMES ''Default''))"

text \<open>
  \<^verbatim>\<open>draw_bounding_boxes\<close> (lines 69--142). The imaging library is the
  environment. \<^verbatim>\<open>Image.open\<close> is a parameter \<open>open_image\<close>: for a path
  it raises or gives an image, of which the model keeps the size. The font is
  loaded under a handler that falls back to the default font. The function
  itself decides the sequence of drawing calls on the overlay, which is what
  the model returns for the annotated image: one polygon per element with
  coordinates, followed by the number label of its ordinal when numbers are
  shown and the polygon has a first vertex. Only an element whose coordinates
  are \<^verbatim>\<open>None\<close> is skipped; \<^verbatim>\<open>draw.polygon\<close> raises
  \<^verbatim>\<open>TypeError\<close> on a coordinate list of fewer than two points, and the
  exception leaves the function. The loop counter \<^verbatim>\<open>idx\<close> of
  \<^verbatim>\<open>enumerate(elements, 1)\<close> advances on every element, drawn or not.
\<close>

type_synonym image_env = "string \<Rightarrow> py_error + (nat \<times> nat)"

datatype draw_cmd =
    Polygon "point list" rgb int int
  | NumberLabel point string rgb int

fun draw_loop ::
  "(string \<times> rgb) list \<Rightarrow> int \<Rightarrow> real \<Rightarrow> bool \<Rightarrow> int \<Rightarrow> element list \<Rightarrow> draw_cmd list \<Rightarrow>
     py_error + draw_cmd list" where
  "draw_loop colors box_width transparency show_numbers idx [] cmds = Inr cmds"
| "draw_loop colors box_width transparency show_numbers idx (element # rest) cmds =
     (case elem_coordinates element of
        None \<Rightarrow> draw_loop colors box_width transparency show_numbers (idx + 1) rest cmds
      | Some coords \<Rightarrow>
          (let color = (case map_of colors (elem_type element) of
                          Some c \<Rightarrow> c | None \<Rightarrow> DEFAULT_COLOR);
               alpha = py_int (255 * transparency)
           in if length coords < 2 then Inl TypeError
              else
                (let cmds1 = cmds @ [Polygon coords color alpha box_width];
                     cmds2 = (if show_numbers \<and> coords \<noteq> []
                              then cmds1 @ [NumberLabel (coords ! 0) (py_str idx) color alpha]
                              else cmds1)
                 in draw_loop colors box_width transparency show_numbers (idx + 1) rest cmds2)))"

definition draw_bounding_boxes ::
  "image_env \<Rightarrow> string \<Rightarrow> element list \<Rightarrow> int \<Rightarrow> real \<Rightarrow> bool \<Rightarrow> string \<Rightarrow>
     py_error + draw_cmd list" where
  "draw_bounding_boxes open_image image_path elems box_width transparency show_numbers
       color_scheme =
     (case open_image image_path of
        Inl e \<Rightarrow> Inl e
      | Inr img \<Rightarrow>
          (let colors = get_color_scheme color_scheme
           in draw_loop colors box_width transparency show_numbers 1 elems []))"

text \<open>
  \<^verbatim>\<open>create_side_by_side_view\<close> (lines 198--242) draws first (lines
  221--228), so an exception of \<^verbatim>\<open>draw_bounding_boxes\<close> leaves it before
  any text is built. \<open>format_loop\<close> is the \<^verbatim>\<open>for\<close> loop of lines
  232--238 with its accumulator \<^verbatim>\<open>text_parts\<close>.
\<close>

fun format_loop :: "bool \<Rightarrow> int \<Rightarrow> element list \<Rightarrow> string list \<Rightarrow> string list" where
  "format_loop show_numbers idx [] text_parts = text_parts"
| "format_loop show_numbers idx (element # rest) text_parts =
     format_loop show_numbers (idx + 1) rest
       (text_parts @
        [if show_numbers then ''['' @ py_str idx @ ''] '' @ elem_type element
         else elem_type element,
         elem_text element,
         replicate 50 (CHR ''-'')])"

definition create_side_by_side_view ::
  "image_env \<Rightarrow> string \<Rightarrow> element list \<Rightarrow> int \<Rightarrow> real \<Rightarrow> bool \<Rightarrow> string \<Rightarrow>
     py_error + (draw_cmd list \<times> string)" where
  "create_side_by_side_view open_image image_path elems box_width transparency show_numbers
       color_scheme =
     (case draw_bounding_boxes open_image image_path elems box_width transparency show_numbers
             color_scheme of
        Inl e \<Rightarrow> Inl e
      | Inr annotated_img \<Rightarrow>
          (let text_parts = format_loop show_numbers 1 elems [];
               formatted_text = join newline text_parts
           in Inr (annotated_img, formatted_text)))"

subsection \<open>The formatted text as the specification words it\<close>

text \<open>
  Section 4.3 of the specification: the formatted text is the concatenation, in
  element order, of the header \<open>"[n] {type}"\<close> or \<open>"{type}"\<close>, the element's
  text and a fixed-width separator line, joined by newlines, where \<open>n\<close> is the
  1-based position of the element in the full list. These two definitions
  follow the specification's words, not the code.
\<close>

definition spec_entry :: "bool \<Rightarrow> int \<Rightarrow> element \<Rightarrow> string list" where
  "spec_entry show_numbers n e =
     [if show_numbers then ''['' @ py_str n @ ''] '' @ elem_type e else elem_type e,
      elem_text e,
      replicate 50 (CHR ''-'')]"

definition spec_formatted_text :: "bool \<Rightarrow> element list \<Rightarrow> string" where
  "spec_formatted_text show_numbers elems =
     join newline
       (concat (map (\<lambda>k. spec_entry show_numbers (int k + 1) (elems ! k)) [0..<length elems]))"

text \<open>The polygons among a sequence of drawing calls.\<close>

fun polygon_of :: "draw_cmd \<Rightarrow> point list option" where
  "polygon_of (Polygon coords color alpha width) = Some coords"
| "polygon_of (NumberLabel p txt color alpha) = None"

text \<open>
  The elements that the drawing loop gets past: those without coordinates, and
  those whose polygon has the two points that \<^verbatim>\<open>draw.polygon\<close> asks for.
\<close>

definition polygon_accepted :: "element \<Rightarrow> bool" where
  "polygon_accepted e =
     (case elem_coordinates e of None \<Rightarrow> True | Some coords \<Rightarrow> 2 \<le> length coords)"

section \<open>parser.py: file discovery\<close>

text \<open>
  \<^verbatim>\<open>scan_data_folder\<close> (parser.py, lines 7--27) reads the file system
  through \<^verbatim>\<open>pathlib\<close>. The file system is a parameter: which paths exist,
  and the names of the entries of a directory. \<^verbatim>\<open>Path.glob\<close> with a
  pattern \<^verbatim>\<open>'*' + suffix\<close> yields the entries whose name ends with the
  suffix; the comparison is case-sensitive, as \<^verbatim>\<open>pathlib\<close> matches on POSIX
  systems. \<^verbatim>\<open>sorted\<close> orders paths of one folder by their names.

  \<^verbatim>\<open>Path(folder_path)\<close> normalises the text of the folder as a POSIX path:
  the root is \<^verbatim>\<open>//\<close> for exactly two leading slashes and \<^verbatim>\<open>/\<close> for any
  other number, the components between slashes are kept without the empty ones
  and the single dots, and \<^verbatim>\<open>str\<close> of a path is the root followed by the
  components joined with slashes, or a single dot when there is neither. A
  path that \<^verbatim>\<open>glob\<close> yields is the folder with the entry's name as one
  more component.
\<close>

record filesystem =
  path_exists :: "string \<Rightarrow> bool"
  dir_entries :: "string \<Rightarrow> string list"

fun split_slash :: "string \<Rightarrow> string list" where
  "split_slash [] = [[]]"
| "split_slash (c # cs) =
     (if c = CHR ''/'' then [] # split_slash cs
      else (case split_slash cs of
              [] \<Rightarrow> [[c]]
            | w # ws \<Rightarrow> (c # w) # ws))"

definition path_root :: "string \<Rightarrow> string" where
  "path_root p =
     (if take 2 p = ''//'' \<and> take 3 p \<noteq> ''///'' then ''//''
      else if take 1 p = ''/'' then ''/''
      else [])"

definition path_parts :: "string \<Rightarrow> string list" where
  "path_parts p = filter (\<lambda>w. w \<noteq> [] \<and> w \<noteq> ''.'') (split_slash p)"

definition path_str :: "string \<Rightarrow> string list \<Rightarrow> string" where
  "path_str anchor parts =
     (if anchor = [] \<and> parts = [] then ''.'' else anchor @ join ''/'' parts)"

definition glob_star :: "string \<Rightarrow> string \<Rightarrow> bool" where
  "glob_star suffix name =
     (length suffix \<le> length name \<and> drop (length name - length suffix) name = suffix)"

definition path_glob :: "filesystem \<Rightarrow> string \<Rightarrow> string \<Rightarrow> string list" where
  "path_glob fs folder suffix = filter (glob_star suffix) (dir_entries fs folder)"

definition scan_data_folder :: "filesystem \<Rightarrow> string \<Rightarrow> py_error + string list" where
  "scan_data_folder fs folder_path =
     (if \<not> path_exists fs folder_path then Inl FileNotFoundError
      else
        (let tiff_files =
               foldl (\<lambda>tiff_files ext. tiff_files @ path_glob fs folder_path ext) []
                 [''.tiff'', ''.tif'', ''.TIFF'', ''.TIF'']
         in Inr (map (\<lambda>f. path_str (path_root folder_path) (path_parts folder_path @ [f]))
                   (sort tiff_files))))"

section \<open>Example inputs\<close>

text \<open>
  A heap with the two elements of a parsed page, the parse result that lists
  them, a short editing session, a data folder, and the images that can be opened.
\<close>

definition example_heap :: heap where
  "example_heap =
     [\<lparr>elem_type = ''Title'', elem_text = ''Report'', elem_coordinates = None\<rparr>,
      \<lparr>elem_type = ''Table'', elem_text = ''a b'',
        elem_coordinates = Some [(100,100),(300,100),(300,200),(100,200)]\<rparr>]"

definition example_file :: parse_result where
  "example_file =
     \<lparr>filename = ''page.tif'', filepath = ''data/page.tif'', elements = [0, 1],
      full_text = ''Report''\<rparr>"

definition example_events :: "ui_event list" where
  "example_events =
     [UpdateType 0 ''Header'',
      Reparse 1 (Inr ''a b c'') [(90,100),(310,100),(310,200),(90,200)],
      Summary]"

definition example_fs :: filesystem where
  "example_fs =
     \<lparr>path_exists = (\<lambda>p. p = ''data''),
      dir_entries = (\<lambda>p. if p = ''data'' then [''scan.Tiff'', ''b.tif'', ''notes.txt''] else [])\<rparr>"

definition example_images :: image_env where
  "example_images =
     (\<lambda>p. if p = ''data/page.tif'' then Inr (400, 300) else Inl FileNotFoundError)"

section \<open>Facts about the built-ins\<close>

lemma foldl_py_min: "foldl (\<lambda>m y. if y < m then y else m) x xs = Min (insert x (set xs))"
proof (induction xs arbitrary: x)
  case Nil
  show ?case by simp
next
  case (Cons a xs)
  have "(if a < x then a else x) = min a x" by (auto simp add: min_def)
  then have "foldl (\<lambda>m y. if y < m then y else m) x (a # xs) = Min (insert (min a x) (set xs))"
    using Cons.IH by simp
  also have "\<dots> = Min (insert x (insert a (set xs)))"
  proof (cases "set xs = {}")
    case True
    then show ?thesis by (simp add: min.commute)
  next
    case False
    then show ?thesis by (simp add: min.assoc min.left_commute min.commute)
  qed
  finally show ?case by simp
qed

lemma foldl_py_max: "foldl (\<lambda>m y. if m < y then y else m) x xs = Max (insert x (set xs))"
proof (induction xs arbitrary: x)
  case Nil
  show ?case by simp
next
  case (Cons a xs)
  have "(if x < a then a else x) = max a x" by (auto simp add: max_def)
  then have "foldl (\<lambda>m y. if m < y then y else m) x (a # xs) = Max (insert (max a x) (set xs))"
    using Cons.IH by simp
  also have "\<dots> = Max (insert x (insert a (set xs)))"
  proof (cases "set xs = {}")
    case True
    then show ?thesis by (simp add: max.commute)
  next
    case False
    then show ?thesis by (simp add: max.assoc max.left_commute max.commute)
  qed
  finally show ?case by simp
qed

lemma py_min_Min: "xs \<noteq> [] \<Longrightarrow> py_min xs = Inr (Min (set xs))"
  by (cases xs) (simp_all add: foldl_py_min)

lemma py_max_Max: "xs \<noteq> [] \<Longrightarrow> py_max xs = Inr (Max (set xs))"
  by (cases xs) (simp_all add: foldl_py_max)

lemma py_int_nonneg: "0 \<le> x \<Longrightarrow> 0 \<le> py_int x"
  by (simp add: py_int_def)

lemma adjust_coordinates_nonempty:
  assumes "coordinates \<noteq> []"
  shows "adjust_coordinates coordinates l r t b W H =
     Inr [(max 0 (Min (fst ` set coordinates) - real_of_int l), max 0 (Min (snd ` set coordinates) - real_of_int t)),
          (min (real_of_int W) (Max (fst ` set coordinates) + real_of_int r), max 0 (Min (snd ` set coordinates) - real_of_int t)),
          (min (real_of_int W) (Max (fst ` set coordinates) + real_of_int r), min (real_of_int H) (Max (snd ` set coordinates) + real_of_int b)),
          (max 0 (Min (fst ` set coordinates) - real_of_int l), min (real_of_int H) (Max (snd ` set coordinates) + real_of_int b))]"
  using assms by (simp add: adjust_coordinates_def py_min_Min py_max_Max)

lemma region_bbox_nonempty:
  "coordinates \<noteq> [] \<Longrightarrow> region_bbox coordinates =
     Inr (Min (fst ` set coordinates), Min (snd ` set coordinates),
          Max (fst ` set coordinates), Max (snd ` set coordinates))"
  by (simp add: region_bbox_def py_min_Min py_max_Max)

lemma get_bounding_box_size_nonempty:
  "coordinates \<noteq> [] \<Longrightarrow> get_bounding_box_size coordinates =
     Inr (py_int (Max (fst ` set coordinates) - Min (fst ` set coordinates)),
          py_int (Max (snd ` set coordinates) - Min (snd ` set coordinates)))"
  by (simp add: get_bounding_box_size_def py_min_Min py_max_Max)

lemma Min_le_Max_image:
  "coordinates \<noteq> [] \<Longrightarrow> Min (f ` set coordinates) \<le> (Max (f ` set coordinates) :: real)"
  by (simp add: Min_le_iff)

section \<open>Facts about the edit tracker\<close>

lemma map_nth_append_old:
  "\<forall>r\<in>set rs. r < length h \<Longrightarrow> map ((!) (h @ ext)) rs = map ((!) h) rs"
  by (induction rs) (simp_all add: nth_append)

lemma deepcopy_elements_spec:
  assumes "n \<le> length h"
    and "\<forall>r\<in>set rs. r < n"
    and "\<forall>r r'. memo r = Some r' \<longrightarrow> r < n \<and> n \<le> r' \<and> r' < length h \<and> h ! r' = h ! r"
    and "deepcopy_elements h memo rs = (h', rs')"
  shows "(\<exists>ext. h' = h @ ext) \<and> length rs' = length rs \<and>
         (\<forall>r'\<in>set rs'. n \<le> r' \<and> r' < length h') \<and>
         map ((!) h') rs' = map ((!) h) rs"
  using assms
proof (induction rs arbitrary: h memo h' rs')
  case Nil
  then show ?case by simp
next
  case (Cons r rs)
  have r_lt: "r < n" and rs_lt: "\<forall>r\<in>set rs. r < n"
    using Cons.prems(2) by simp_all
  show ?case
  proof (cases "memo r")
    case (Some c)
    obtain h1 rs1 where rec: "deepcopy_elements h memo rs = (h1, rs1)"
      by (cases "deepcopy_elements h memo rs")
    have res: "h' = h1" "rs' = c # rs1"
      using Cons.prems(4) Some rec by simp_all
    have ih: "(\<exists>ext. h1 = h @ ext) \<and> length rs1 = length rs \<and>
         (\<forall>r'\<in>set rs1. n \<le> r' \<and> r' < length h1) \<and>
         map ((!) h1) rs1 = map ((!) h) rs"
      by (rule Cons.IH [OF Cons.prems(1) rs_lt Cons.prems(3) rec])
    have c: "n \<le> c" "c < length h" "h ! c = h ! r"
      using Cons.prems(3) Some by blast+
    from ih obtain ext where ext: "h1 = h @ ext" by blast
    have "h1 ! c = h ! r"
      using c ext by (simp add: nth_append)
    moreover have "c < length h1"
      using c ext by simp
    ultimately show ?thesis
      using ih res c(1) by simp
  next
    case None
    let ?h = "h @ [h ! r]"
    let ?memo = "memo(r \<mapsto> length h)"
    obtain h1 rs1 where rec: "deepcopy_elements ?h ?memo rs = (h1, rs1)"
      by (cases "deepcopy_elements ?h ?memo rs")
    have res: "h' = h1" "rs' = length h # rs1"
      using Cons.prems(4) None rec by simp_all
    have n_le: "n \<le> length ?h"
      using Cons.prems(1) by simp
    have memo_ok: "\<forall>a a'. ?memo a = Some a' \<longrightarrow>
        a < n \<and> n \<le> a' \<and> a' < length ?h \<and> ?h ! a' = ?h ! a"
    proof (intro allI impI)
      fix a a'
      assume a: "?memo a = Some a'"
      show "a < n \<and> n \<le> a' \<and> a' < length ?h \<and> ?h ! a' = ?h ! a"
      proof (cases "a = r")
        case True
        then have "a' = length h" using a by simp
        then show ?thesis
          using True r_lt Cons.prems(1) by (simp add: nth_append)
      next
        case False
        then have "memo a = Some a'" using a by simp
        then have "a < n \<and> n \<le> a' \<and> a' < length h \<and> h ! a' = h ! a"
          using Cons.prems(3) by blast
        then show ?thesis
          using Cons.prems(1) by (simp add: nth_append)
      qed
    qed
    have ih: "(\<exists>ext. h1 = ?h @ ext) \<and> length rs1 = length rs \<and>
         (\<forall>r'\<in>set rs1. n \<le> r' \<and> r' < length h1) \<and>
         map ((!) h1) rs1 = map ((!) ?h) rs"
      by (rule Cons.IH [OF n_le rs_lt memo_ok rec])
    from ih obtain ext where ext: "h1 = ?h @ ext" by blast
    have "\<forall>r\<in>set rs. r < length h"
      using rs_lt Cons.prems(1) by auto
    then have old: "map ((!) ?h) rs = map ((!) h) rs"
      by (rule map_nth_append_old)
    have new: "h1 ! length h = h ! r" "length h < length h1"
      using ext by (simp_all add: nth_append)
    have "\<exists>ext'. h1 = h @ ext'"
      using ext by simp
    then show ?thesis
      using ih res old new Cons.prems(1) by simp
  qed
qed

lemma deepcopy_spec:
  assumes "\<forall>r\<in>set rs. r < length h" and "deepcopy h rs = (h', rs')"
  shows "(\<exists>ext. h' = h @ ext) \<and> length rs' = length rs \<and>
         (\<forall>r'\<in>set rs'. length h \<le> r' \<and> r' < length h') \<and>
         map ((!) h') rs' = map ((!) h) rs"
proof (rule deepcopy_elements_spec [where memo = Map.empty])
  show "deepcopy_elements h Map.empty rs = (h', rs')"
    using assms(2) by (simp add: deepcopy_def)
qed (use assms(1) in simp_all)

lemma initialize_edit_tracking_spec:
  assumes "\<forall>r\<in>set (elements file_data). r < length h"
    and "initialize_edit_tracking h file_data = (h2, et)"
  shows "\<exists>ext. h2 = h @ ext"
    and "edited_indices et = {}"
    and "length (original et) = length (elements file_data)"
    and "length (current et) = length (elements file_data)"
    and "\<forall>r\<in>set (original et). length h \<le> r \<and> r < length h2 \<and> r \<notin> set (current et)"
    and "\<forall>r\<in>set (current et). length h \<le> r \<and> r < length h2"
    and "map ((!) h2) (original et) = map ((!) h) (elements file_data)"
    and "map ((!) h2) (current et) = map ((!) h) (elements file_data)"
proof -
  obtain h1 orig where c1: "deepcopy h (elements file_data) = (h1, orig)"
    by (cases "deepcopy h (elements file_data)")
  obtain h2' cur where c2: "deepcopy h1 (elements file_data) = (h2', cur)"
    by (cases "deepcopy h1 (elements file_data)")
  have et: "h2 = h2'" "et = \<lparr>original = orig, current = cur, edited_indices = {}\<rparr>"
    using assms(2) c1 c2 by (simp_all add: initialize_edit_tracking_def)
  have s1: "(\<exists>ext. h1 = h @ ext) \<and> length orig = length (elements file_data) \<and>
         (\<forall>r'\<in>set orig. length h \<le> r' \<and> r' < length h1) \<and>
         map ((!) h1) orig = map ((!) h) (elements file_data)"
    by (rule deepcopy_spec [OF assms(1) c1])
  then obtain ext1 where ext1: "h1 = h @ ext1" by blast
  have ok1: "\<forall>r\<in>set (elements file_data). r < length h1"
    using assms(1) ext1 by auto
  have s2: "(\<exists>ext. h2' = h1 @ ext) \<and> length cur = length (elements file_data) \<and>
         (\<forall>r'\<in>set cur. length h1 \<le> r' \<and> r' < length h2') \<and>
         map ((!) h2') cur = map ((!) h1) (elements file_data)"
    by (rule deepcopy_spec [OF ok1 c2])
  then obtain ext2 where ext2: "h2' = h1 @ ext2" by blast
  show "\<exists>ext. h2 = h @ ext"
    using et ext1 ext2 by simp
  show "edited_indices et = {}" "length (original et) = length (elements file_data)"
    "length (current et) = length (elements file_data)"
    using et s1 s2 by simp_all
  show "\<forall>r\<in>set (original et). length h \<le> r \<and> r < length h2 \<and> r \<notin> set (current et)"
    using et s1 s2 ext2 by fastforce
  show "\<forall>r\<in>set (current et). length h \<le> r \<and> r < length h2"
    using et s2 ext1 by fastforce
  have "\<forall>r\<in>set orig. r < length h1"
    using s1 by simp
  then have "map ((!) h2') orig = map ((!) h1) orig"
    unfolding ext2 by (rule map_nth_append_old)
  then show "map ((!) h2) (original et) = map ((!) h) (elements file_data)"
    using et s1 by simp
  have "map ((!) h1) (elements file_data) = map ((!) h) (elements file_data)"
    unfolding ext1 using assms(1) by (rule map_nth_append_old)
  then show "map ((!) h2) (current et) = map ((!) h) (elements file_data)"
    using et s2 by simp
qed

lemma py_index_in_set: "py_index xs i = Inr r \<Longrightarrow> r \<in> set xs"
  by (auto simp add: py_index_def split: if_splits)

lemma py_index_in_range:
  "0 \<le> i \<Longrightarrow> i < int (length xs) \<Longrightarrow> py_index xs i = Inr (xs ! nat i)"
  by (simp add: py_index_def)

lemma list_update_nth_other:
  "a \<in> C \<Longrightarrow> r \<notin> C \<Longrightarrow> h[a := v] ! r = h ! r"
  by (cases "a = r") simp_all

lemma nat_index_in_set: "0 \<le> i \<Longrightarrow> i < int (length xs) \<Longrightarrow> xs ! nat i \<in> set xs"
  by simp

lemma update_element_type_frame:
  assumes "update_element_type h elems i t = (h', elems')"
  shows "length h' = length h" and "elems' = elems"
    and "\<forall>r. r \<notin> set elems \<longrightarrow> h' ! r = h ! r"
  using assms
  by (auto simp add: update_element_type_def list_update_nth_other [OF nat_index_in_set]
      split: if_splits)

lemma replace_element_with_reparsed_frame:
  assumes "replace_element_with_reparsed h elems i t = (h', elems')"
  shows "length h' = length h" and "elems' = elems"
    and "\<forall>r. r \<notin> set elems \<longrightarrow> h' ! r = h ! r"
  using assms
  by (auto simp add: replace_element_with_reparsed_def list_update_nth_other [OF nat_index_in_set]
      split: if_splits)

lemma ui_update_type_frame:
  assumes "ui_update_type (h, et) idx new_type = (h', et')"
  shows "length h' = length h \<and> original et' = original et \<and> current et' = current et \<and>
         edited_indices et \<subseteq> edited_indices et' \<and>
         (\<forall>r. r \<notin> set (current et) \<longrightarrow> h' ! r = h ! r)"
proof -
  obtain h1 cur where u: "update_element_type h (current et) idx new_type = (h1, cur)"
    by (cases "update_element_type h (current et) idx new_type")
  have "h' = h1" "et' = et\<lparr>current := cur, edited_indices := insert idx (edited_indices et)\<rparr>"
    using assms u by (simp_all add: ui_update_type_def)
  then show ?thesis
    using update_element_type_frame [OF u] by auto
qed

lemma ui_reparse_frame:
  assumes "ui_reparse (h, et) idx parsed adjusted_coords = (h', et')"
  shows "length h' = length h \<and> original et' = original et \<and> current et' = current et \<and>
         edited_indices et \<subseteq> edited_indices et' \<and>
         (\<forall>r. r \<notin> set (current et) \<longrightarrow> h' ! r = h ! r)"
proof (cases parsed)
  case (Inl e)
  then show ?thesis using assms by (simp add: ui_reparse_def)
next
  case (Inr new_text)
  obtain h1 cur where u: "replace_element_with_reparsed h (current et) idx new_text = (h1, cur)"
    by (cases "replace_element_with_reparsed h (current et) idx new_text")
  note fr = replace_element_with_reparsed_frame [OF u]
  show ?thesis
  proof (cases "py_index (current et) idx")
    case (Inl e)
    then have "h' = h1" "et' = et\<lparr>current := cur\<rparr>"
      using assms Inr u fr(2) by (simp_all add: ui_reparse_def)
    then show ?thesis using fr by auto
  next
    case r: (Inr r)
    then have res: "h' = h1[r := (h1 ! r)\<lparr>elem_coordinates := Some adjusted_coords\<rparr>]"
      "et' = et\<lparr>current := cur, edited_indices := insert idx (edited_indices et)\<rparr>"
      using assms Inr u fr(2) by (simp_all add: ui_reparse_def)
    have "r \<in> set (current et)"
      using r by (rule py_index_in_set)
    then have "\<forall>q. q \<notin> set (current et) \<longrightarrow> h' ! q = h1 ! q"
      using res(1) by (simp add: list_update_nth_other)
    then show ?thesis using fr res by auto
  qed
qed

lemma ui_step_frame:
  assumes "ui_step (h, et) ev = (h', et')"
  shows "length h' = length h \<and> original et' = original et \<and> current et' = current et \<and>
         edited_indices et \<subseteq> edited_indices et' \<and>
         (\<forall>r. r \<notin> set (current et) \<longrightarrow> h' ! r = h ! r)"
proof (cases ev)
  case (UpdateType idx new_type)
  then show ?thesis using assms ui_update_type_frame by simp
next
  case (Reparse idx parsed adjusted_coords)
  then show ?thesis using assms ui_reparse_frame by simp
next
  case Summary
  then show ?thesis using assms by simp
qed

lemma ui_run_frame:
  assumes "ui_run (h, et) evs = (h', et')"
  shows "length h' = length h \<and> original et' = original et \<and> current et' = current et \<and>
         edited_indices et \<subseteq> edited_indices et' \<and>
         (\<forall>r. r \<notin> set (current et) \<longrightarrow> h' ! r = h ! r)"
  using assms
proof (induction evs arbitrary: h et)
  case Nil
  then show ?case by (simp add: ui_run_def)
next
  case (Cons ev evs)
  obtain h1 et1 where step: "ui_step (h, et) ev = (h1, et1)"
    by (cases "ui_step (h, et) ev")
  then have run: "ui_run (h1, et1) evs = (h', et')"
    using Cons.prems by (simp add: ui_run_def)
  note a = ui_step_frame [OF step]
  note b = Cons.IH [OF run]
  show ?case using a b by auto
qed

lemma map_nth_frame:
  "\<forall>r. r \<notin> C \<longrightarrow> h' ! r = h ! r \<Longrightarrow> \<forall>r\<in>set rs. r \<notin> C \<Longrightarrow> map ((!) h') rs = map ((!) h) rs"
  by simp

lemma digit_no_newline: "k < 10 \<Longrightarrow> ''0123456789'' ! k \<noteq> CHR 0x0A"
proof -
  assume "k < 10"
  then have "''0123456789'' ! k \<in> set ''0123456789''"
    by (intro nth_mem) simp
  then show ?thesis by auto
qed

lemma digits_no_newline: "CHR 0x0A \<notin> set (digits n)"
proof (induction n rule: digits.induct)
  case (1 n)
  show ?case
  proof (cases "n < 10")
    case True
    then show ?thesis
      using digit_no_newline [of n] by (subst digits.simps) simp
  next
    case False
    have "n mod 10 < 10" by simp
    then show ?thesis
      using False 1 digit_no_newline [of "n mod 10"] by (subst digits.simps) simp
  qed
qed

lemma py_str_no_newline: "CHR 0x0A \<notin> set (py_str i)"
  by (simp add: py_str_def digits_no_newline)

lemma get_edit_summary_no_edits:
  "edited_indices et = {} \<Longrightarrow> get_edit_summary h et = Inr ''No edits made''"
  by (simp add: get_edit_summary_def)

lemma map_nth_eq_at:
  "map ((!) h') rs' = map ((!) h) rs \<Longrightarrow> k < length rs \<Longrightarrow> h' ! (rs' ! k) = h ! (rs ! k)"
  by (metis length_map nth_map)

section \<open>Facts about the overlay renderer\<close>

lemma upt_0_Suc_map: "[0..<Suc n] = 0 # map Suc [0..<n]"
  by (simp add: upt_conv_Cons map_Suc_upt del: upt_Suc)

lemma format_loop_eq:
  "format_loop show_numbers idx es text_parts =
     text_parts @ concat (map (\<lambda>k. spec_entry show_numbers (idx + int k) (es ! k)) [0..<length es])"
proof (induction es arbitrary: idx text_parts)
  case Nil
  show ?case by simp
next
  case (Cons e es)
  have shift: "map (\<lambda>k. spec_entry show_numbers (idx + int k) ((e # es) ! k)) [0..<Suc (length es)] =
      spec_entry show_numbers idx e #
      map (\<lambda>k. spec_entry show_numbers (idx + 1 + int k) (es ! k)) [0..<length es]"
    unfolding upt_0_Suc_map by (simp add: comp_def add.assoc)
  have "format_loop show_numbers idx (e # es) text_parts =
      (text_parts @ spec_entry show_numbers idx e) @
      concat (map (\<lambda>k. spec_entry show_numbers (idx + 1 + int k) (es ! k)) [0..<length es])"
    using Cons.IH [of "idx + 1"] by (simp add: spec_entry_def)
  then show ?case
    using shift by simp
qed

lemma map_filter_append: "List.map_filter f (xs @ ys) = List.map_filter f xs @ List.map_filter f ys"
  by (simp add: List.map_filter_def)

lemma draw_loop_accepted:
  "list_all polygon_accepted es \<Longrightarrow>
   \<exists>out. draw_loop colors box_width transparency show_numbers idx es cmds = Inr out \<and>
         List.map_filter polygon_of out =
           List.map_filter polygon_of cmds @ List.map_filter elem_coordinates es"
proof (induction es arbitrary: idx cmds)
  case Nil
  show ?case by (simp add: List.map_filter_simps)
next
  case (Cons e es)
  have rest: "list_all polygon_accepted es"
    using Cons.prems by simp
  show ?case
  proof (cases "elem_coordinates e")
    case None
    then show ?thesis
      using Cons.IH [OF rest, of "idx + 1" cmds] by (simp add: List.map_filter_simps)
  next
    case (Some coords)
    then have two: "\<not> length coords < 2"
      using Cons.prems by (simp add: polygon_accepted_def)
    let ?color = "case map_of colors (elem_type e) of Some c \<Rightarrow> c | None \<Rightarrow> DEFAULT_COLOR"
    let ?alpha = "py_int (255 * transparency)"
    let ?cmds1 = "cmds @ [Polygon coords ?color ?alpha box_width]"
    let ?cmds2 = "if show_numbers \<and> coords \<noteq> []
        then ?cmds1 @ [NumberLabel (coords ! 0) (py_str idx) ?color ?alpha] else ?cmds1"
    have step: "draw_loop colors box_width transparency show_numbers idx (e # es) cmds =
        draw_loop colors box_width transparency show_numbers (idx + 1) es ?cmds2"
      using Some two by (simp add: Let_def)
    have polys: "List.map_filter polygon_of ?cmds2 = List.map_filter polygon_of cmds @ [coords]"
      by (simp add: map_filter_append List.map_filter_simps)
    from Cons.IH [OF rest, of "idx + 1" ?cmds2]
    obtain out where out: "draw_loop colors box_width transparency show_numbers (idx + 1) es ?cmds2 = Inr out"
      "List.map_filter polygon_of out =
         List.map_filter polygon_of ?cmds2 @ List.map_filter elem_coordinates es"
      by blast
    have "List.map_filter polygon_of out =
        List.map_filter polygon_of cmds @ List.map_filter elem_coordinates (e # es)"
      using out(2) Some unfolding polys by (simp add: List.map_filter_simps)
    then show ?thesis
      using step out(1) by simp
  qed
qed

lemma draw_loop_rejected:
  "\<not> list_all polygon_accepted es \<Longrightarrow>
   draw_loop colors box_width transparency show_numbers idx es cmds = Inl TypeError"
proof (induction es arbitrary: idx cmds)
  case Nil
  then show ?case by simp
next
  case (Cons e es)
  show ?case
  proof (cases "elem_coordinates e")
    case None
    then have "polygon_accepted e"
      by (simp add: polygon_accepted_def)
    then have "\<not> list_all polygon_accepted es"
      using Cons.prems by simp
    then show ?thesis
      using None Cons.IH by simp
  next
    case (Some coords)
    show ?thesis
    proof (cases "length coords < 2")
      case True
      then show ?thesis using Some by (simp add: Let_def)
    next
      case False
      then have "polygon_accepted e"
        using Some by (simp add: polygon_accepted_def)
      then have "\<not> list_all polygon_accepted es"
        using Cons.prems by simp
      then show ?thesis
        using Some False Cons.IH by (simp add: Let_def)
    qed
  qed
qed

lemma erased_coordinates_accepted:
  "list_all polygon_accepted (map (\<lambda>e. e\<lparr>elem_coordinates := None\<rparr>) es)"
  by (induction es) (simp_all add: polygon_accepted_def)

lemma erased_coordinates_no_polygon:
  "List.map_filter elem_coordinates (map (\<lambda>e. e\<lparr>elem_coordinates := None\<rparr>) es) = []"
  by (induction es) (simp_all add: List.map_filter_simps)

lemma create_side_by_side_view_text:
  "create_side_by_side_view open_image image_path es box_width transparency show_numbers color_scheme
     = Inr (annotated_img, formatted_text) \<Longrightarrow>
   formatted_text = spec_formatted_text show_numbers es"
  by (auto simp add: create_side_by_side_view_def spec_formatted_text_def format_loop_eq
      add.commute split: sum.splits)

lemma create_side_by_side_view_accepted:
  assumes "open_image image_path = Inr img" and "list_all polygon_accepted es"
  shows "\<exists>annotated_img.
     create_side_by_side_view open_image image_path es box_width transparency show_numbers color_scheme
       = Inr (annotated_img, spec_formatted_text show_numbers es) \<and>
     List.map_filter polygon_of annotated_img = List.map_filter elem_coordinates es"
proof -
  from draw_loop_accepted [OF assms(2), of "get_color_scheme color_scheme" box_width transparency
      show_numbers 1 "[]"]
  obtain out where out:
    "draw_loop (get_color_scheme color_scheme) box_width transparency show_numbers 1 es [] = Inr out"
    "List.map_filter polygon_of out = List.map_filter elem_coordinates es"
    by (auto simp add: List.map_filter_simps)
  have "create_side_by_side_view open_image image_path es box_width transparency show_numbers
      color_scheme = Inr (out, spec_formatted_text show_numbers es)"
    using assms(1) out(1)
    by (simp add: create_side_by_side_view_def draw_bounding_boxes_def spec_formatted_text_def
        format_loop_eq add.commute)
  then show ?thesis using out(2) by blast
qed

lemma create_side_by_side_view_rejected:
  assumes "open_image image_path = Inr img" and "\<not> list_all polygon_accepted es"
  shows "create_side_by_side_view open_image image_path es box_width transparency show_numbers
       color_scheme = Inl TypeError"
  using assms(1) draw_loop_rejected [OF assms(2)]
  by (simp add: create_side_by_side_view_def draw_bounding_boxes_def)

lemma create_side_by_side_view_no_image:
  "open_image image_path = Inl err \<Longrightarrow>
   create_side_by_side_view open_image image_path es box_width transparency show_numbers
       color_scheme = Inl err"
  by (simp add: create_side_by_side_view_def draw_bounding_boxes_def)

lemma spec_formatted_text_coordinates:
  "spec_formatted_text show_numbers (map (\<lambda>e. e\<lparr>elem_coordinates := c e\<rparr>) es) =
   spec_formatted_text show_numbers es"
proof -
  have eq: "map (\<lambda>k. spec_entry show_numbers (int k + 1) (map (\<lambda>e. e\<lparr>elem_coordinates := c e\<rparr>) es ! k))
          [0..<length es] =
        map (\<lambda>k. spec_entry show_numbers (int k + 1) (es ! k)) [0..<length es]"
    by (rule map_cong) (simp_all add: spec_entry_def)
  show ?thesis
    by (simp only: spec_formatted_text_def length_map eq)
qed

section \<open>The example session, evaluated\<close>

lemma example_init:
  "initialize_edit_tracking example_heap example_file =
     (example_heap @ example_heap @ example_heap,
      \<lparr>original = [2, 3], current = [4, 5], edited_indices = {}\<rparr>)"
  by (simp add: initialize_edit_tracking_def deepcopy_def example_heap_def example_file_def)

lemma example_run:
  "ui_run (example_heap @ example_heap @ example_heap,
           \<lparr>original = [2, 3], current = [4, 5], edited_indices = {}\<rparr>) example_events =
     (example_heap @ example_heap @
      [\<lparr>elem_type = ''Header'', elem_text = ''Report'', elem_coordinates = None\<rparr>,
       \<lparr>elem_type = ''Table'', elem_text = ''a b c'',
         elem_coordinates = Some [(90,100),(310,100),(310,200),(90,200)]\<rparr>],
      \<lparr>original = [2, 3], current = [4, 5], edited_indices = {1, 0}\<rparr>)"
  by (simp add: ui_run_def example_events_def ui_update_type_def ui_reparse_def
      update_element_type_def replace_element_with_reparsed_def py_index_def example_heap_def)

lemma example_reset:
  "ui_reset (example_heap @ example_heap @
      [\<lparr>elem_type = ''Header'', elem_text = ''Report'', elem_coordinates = None\<rparr>,
       \<lparr>elem_type = ''Table'', elem_text = ''a b c'',
         elem_coordinates = Some [(90,100),(310,100),(310,200),(90,200)]\<rparr>],
      \<lparr>original = [2, 3], current = [4, 5], edited_indices = {1, 0}\<rparr>) example_file =
     (example_heap @ example_heap @
      [\<lparr>elem_type = ''Header'', elem_text = ''Report'', elem_coordinates = None\<rparr>,
       \<lparr>elem_type = ''Table'', elem_text = ''a b c'',
         elem_coordinates = Some [(90,100),(310,100),(310,200),(90,200)]\<rparr>] @
      example_heap @ example_heap,
      \<lparr>original = [6, 7], current = [8, 9], edited_indices = {}\<rparr>)"
  by (simp add: ui_reset_def initialize_edit_tracking_def deepcopy_def example_heap_def
      example_file_def)

lemma example_update:
  "ui_update_type (example_heap @ example_heap @ example_heap,
      \<lparr>original = [2, 3], current = [4, 5], edited_indices = {}\<rparr>) 0 new_type =
     (example_heap @ example_heap @
      [\<lparr>elem_type = new_type, elem_text = ''Report'', elem_coordinates = None\<rparr>,
       \<lparr>elem_type = ''Table'', elem_text = ''a b'',
         elem_coordinates = Some [(100,100),(300,100),(300,200),(100,200)]\<rparr>],
      \<lparr>original = [2, 3], current = [4, 5], edited_indices = {0}\<rparr>)"
  by (simp add: ui_update_type_def update_element_type_def example_heap_def)

section \<open>Facts about file discovery\<close>

text \<open>
  What \<open>scan_data_folder\<close> does: it raises exactly when the folder is missing,
  and otherwise returns, sorted, the entries that end with one of the four
  spellings of its patterns (none of them, when nothing matches).
\<close>

lemma scan_data_folder_missing:
  "scan_data_folder fs folder_path = Inl FileNotFoundError \<longleftrightarrow> \<not> path_exists fs folder_path"
  by (simp add: scan_data_folder_def)

lemma scan_data_folder_found:
  assumes "path_exists fs folder_path"
  shows "\<exists>names. scan_data_folder fs folder_path =
             Inr (map (\<lambda>f. path_str (path_root folder_path) (path_parts folder_path @ [f])) names) \<and>
           sorted names \<and>
           set names = {n \<in> set (dir_entries fs folder_path).
              glob_star ''.tiff'' n \<or> glob_star ''.tif'' n \<or>
              glob_star ''.TIFF'' n \<or> glob_star ''.TIF'' n}"
proof -
  let ?files = "path_glob fs folder_path ''.tiff'' @ path_glob fs folder_path ''.tif'' @
      path_glob fs folder_path ''.TIFF'' @ path_glob fs folder_path ''.TIF''"
  have "scan_data_folder fs folder_path =
      Inr (map (\<lambda>f. path_str (path_root folder_path) (path_parts folder_path @ [f])) (sort ?files))"
    using assms by (simp add: scan_data_folder_def)
  moreover have "sorted (sort ?files)"
    by simp
  moreover have "set (sort ?files) = {n \<in> set (dir_entries fs folder_path).
              glob_star ''.tiff'' n \<or> glob_star ''.tif'' n \<or>
              glob_star ''.TIFF'' n \<or> glob_star ''.TIF'' n}"
    by (auto simp add: path_glob_def)
  ultimately show ?thesis by blast
qed

section \<open>Claims about the geometry adjuster\<close>

text \<open>
  Claim C1 says that for every non-empty coordinates list, all adjustment
  values and positive image dimensions, every point that \<open>adjust_coordinates\<close>
  returns lies within \<open>[0, imageWidth]\<close> by \<open>[0, imageHeight]\<close>. The code
  takes the image dimensions "for boundary checking" and clamps towards the
  image, but on one side only: the lower bounds by \<open>max(0, .)\<close>, the upper
  bounds by \<open>min(image, .)\<close> (utils.py, lines 96--99). Contracting the left
  edge of the specification's scenario box by 2000 pixels, which the user
  interface accepts, moves that edge to \<open>x = 2100\<close> in an image 400 pixels
  wide: the returned rectangle is not within the image.
\<close>

theorem adjust_coordinates_not_within_image:
  "adjust_coordinates [(100,100),(300,100),(300,200),(100,200)] (-2000) 0 0 0 400 300
     = Inr [(2100,100),(300,100),(300,200),(2100,200)] \<and>
   \<not> list_all (within_image 400 300) [(2100,100),(300,100),(300,200),(2100,200)]"
  by (simp add: adjust_coordinates_def within_image_def)

text \<open>
  Claim C5, as amended. For every non-empty coordinates list \<open>P\<close> whose points all
  lie within the image and all zero adjustments, the axis-aligned bounding box
  of \<open>adjust_coordinates(P, 0, 0, 0, 0, imageWidth, imageHeight)\<close> equals the
  axis-aligned bounding box of \<open>P\<close>.
\<close>

theorem adjust_coordinates_zero_bbox:
  assumes "coordinates \<noteq> []" and "list_all (within_image W H) coordinates"
  shows "bind_err (adjust_coordinates coordinates 0 0 0 0 W H) region_bbox = region_bbox coordinates"
proof -
  have fin: "finite (fst ` set coordinates)" "fst ` set coordinates \<noteq> {}"
       "finite (snd ` set coordinates)" "snd ` set coordinates \<noteq> {}"
    using assms(1) by simp_all
  have inside: "\<forall>p \<in> set coordinates. 0 \<le> fst p \<and> fst p \<le> real_of_int W \<and> 0 \<le> snd p \<and> snd p \<le> real_of_int H"
    using assms(2) by (simp add: list_all_iff within_image_def)
  have x0: "0 \<le> Min (fst ` set coordinates)" and y0: "0 \<le> Min (snd ` set coordinates)"
    using fin inside by (simp_all add: Min_ge_iff)
  have x1: "Max (fst ` set coordinates) \<le> real_of_int W" and y1: "Max (snd ` set coordinates) \<le> real_of_int H"
    using fin inside by (simp_all add: Max_le_iff)
  have xx: "Min (fst ` set coordinates) \<le> Max (fst ` set coordinates)"
    and yy: "Min (snd ` set coordinates) \<le> Max (snd ` set coordinates)"
    using assms(1) by (simp_all add: Min_le_Max_image)
  let ?ps = "[(Min (fst ` set coordinates), Min (snd ` set coordinates)),
          (Max (fst ` set coordinates), Min (snd ` set coordinates)),
          (Max (fst ` set coordinates), Max (snd ` set coordinates)),
          (Min (fst ` set coordinates), Max (snd ` set coordinates))]"
  have adj: "adjust_coordinates coordinates 0 0 0 0 W H = Inr ?ps"
    using x0 y0 x1 y1 by (simp add: adjust_coordinates_nonempty [OF assms(1)] max_def min_def)
  have "region_bbox ?ps = Inr (Min (fst ` set coordinates), Min (snd ` set coordinates),
          Max (fst ` set coordinates), Max (snd ` set coordinates))"
    using xx yy by (simp add: region_bbox_nonempty min_def max_def)
  then show ?thesis
    using adj by (simp add: bind_err_def region_bbox_nonempty [OF assms(1)])
qed


theorem adjust_coordinates_zero_bbox_witness:
  "[(100,100),(300,100),(300,200),(100,200)] \<noteq> ([] :: point list) \<and>
   list_all (within_image 400 300) [(100,100),(300,100),(300,200),(100,200)] \<and>
   bind_err (adjust_coordinates [(100,100),(300,100),(300,200),(100,200)] 0 0 0 0 400 300)
       region_bbox = Inr (100, 100, 300, 200) \<and>
   region_bbox [(100,100),(300,100),(300,200),(100,200)] = Inr (100, 100, 300, 200)"
  using adjust_coordinates_zero_bbox [of "[(100,100),(300,100),(300,200),(100,200)]" 400 300]
  by (simp add: region_bbox_def within_image_def)

text \<open>
  Without the restriction to polygons inside the image the claim fails: the
  one-point polygon \<open>(500, 100)\<close> in a 400 by 300 image is sent to a rectangle
  whose bounding box spans \<open>x = 400\<close> to \<open>x = 500\<close>.
\<close>

theorem adjust_coordinates_zero_bbox_outside:
  "bind_err (adjust_coordinates [(500,100)] 0 0 0 0 400 300) region_bbox = Inr (400, 100, 500, 100) \<and>
   region_bbox [(500,100)] = Inr (500, 100, 500, 100) \<and>
   bind_err (adjust_coordinates [(500,100)] 0 0 0 0 400 300) region_bbox \<noteq> region_bbox [(500,100)]"
  by (simp add: bind_err_def adjust_coordinates_def region_bbox_def)

text \<open>
  Claim C6. For every non-empty coordinates list and all adjustment values and
  image dimensions, \<open>get_bounding_box_size\<close> applied to the result of
  \<open>adjust_coordinates\<close> returns (raises nothing) a pair of non-negative integers,
  also when the adjusted rectangle is inverted.
\<close>

theorem adjusted_box_size_nonneg: 
  assumes "coordinates \<noteq> []"
  shows "\<exists>w h. bind_err (adjust_coordinates coordinates l r t b W H) get_bounding_box_size = Inr (w, h) \<and> 0 \<le> w \<and> 0 \<le> h"
proof -
  obtain ps where ps: "adjust_coordinates coordinates l r t b W H = Inr ps" "ps \<noteq> []"
    using adjust_coordinates_nonempty [OF assms] by simp
  have "0 \<le> Max (fst ` set ps) - Min (fst ` set ps)" "0 \<le> Max (snd ` set ps) - Min (snd ` set ps)"
    using Min_le_Max_image [OF ps(2)] by simp_all
  then show ?thesis
    using ps by (simp add: bind_err_def get_bounding_box_size_nonempty py_int_nonneg)
qed


theorem adjusted_box_size_nonneg_witness:
  "[(100,100),(300,100),(300,200),(100,200)] \<noteq> ([] :: point list) \<and>
   bind_err (adjust_coordinates [(100,100),(300,100),(300,200),(100,200)] (-300) 0 0 0 400 300)
       get_bounding_box_size = Inr (100, 100)"
  using adjusted_box_size_nonneg [of "[(100,100),(300,100),(300,200),(100,200)]" "-300" 0 0 0 400 300]
  by (simp add: bind_err_def adjust_coordinates_def get_bounding_box_size_def py_int_def)

text \<open>
  Claim C10. \<open>adjust_coordinates\<close> never mutates its input: run on a store
  whose reference \<open>c\<close> holds a non-empty coordinates list, it returns, every
  object of the store before the call (the input list with all its points among
  them) is unchanged after it, and the returned reference is fresh and holds a
  list of 4 points.
\<close>

theorem adjust_coordinates_st_frame:
  assumes "c < length s" and "s ! c = Points coordinates" and "coordinates \<noteq> []"
  shows "\<exists>s' res rect.
     adjust_coordinates_st s c l r t b W H = Inr (s', res) \<and>
     take (length s) s' = s \<and> s' ! c = Points coordinates \<and>
     length s \<le> res \<and> res < length s' \<and> s' ! res = Points rect \<and> length rect = 4"
proof -
  obtain rect where rect: "adjust_coordinates coordinates l r t b W H = Inr rect" "length rect = 4"
    using adjust_coordinates_nonempty [OF assms(3)] by simp
  have "adjust_coordinates_st s c l r t b W H =
      Inr (s @ [Floats (map fst coordinates), Floats (map snd coordinates), Points rect], length s + 2)"
    using assms(2) rect(1) by (simp add: adjust_coordinates_st_def alloc_def)
  moreover have "(s @ [Floats (map fst coordinates), Floats (map snd coordinates), Points rect]) ! (length s + 2) = Points rect"
    by (simp add: nth_append)
  moreover have "(s @ [Floats (map fst coordinates), Floats (map snd coordinates), Points rect]) ! c = Points coordinates"
    using assms(1,2) by (simp add: nth_append)
  ultimately show ?thesis
    using rect(2) by simp
qed


theorem adjust_coordinates_st_frame_witness:
  "(0::nat) < length [Points [(100,100),(300,100),(300,200),(100,200)]] \<and>
   adjust_coordinates_st [Points [(100,100),(300,100),(300,200),(100,200)]] 0 10 10 0 0 400 300 =
     Inr ([Points [(100,100),(300,100),(300,200),(100,200)],
           Floats [100,300,300,100], Floats [100,100,200,200],
           Points [(90,100),(310,100),(310,200),(90,200)]], 3)"
  using adjust_coordinates_st_frame
    [of 0 "[Points [(100,100),(300,100),(300,200),(100,200)]]"
        "[(100,100),(300,100),(300,200),(100,200)]" 10 10 0 0 400 300]
  by (simp add: adjust_coordinates_st_def adjust_coordinates_def alloc_def)

section \<open>Claims about the edit tracker\<close>

text \<open>
  In the claims below a heap \<open>h\<close> holds the element dictionaries of a parse
  result \<open>file_data\<close>; the references of \<open>file_data\<close> point into \<open>h\<close>. The
  elements behind a list of references \<open>rs\<close> in a heap \<open>h\<close> are
  \<open>map ((!) h) rs\<close>.

  Claim C2. For every edit-tracking record produced by
  \<open>initialize_edit_tracking\<close> from a parse result and every finite sequence of
  edit events (relabels, which call \<open>update_element_type\<close>, and region
  re-parses, which call \<open>replace_element_with_reparsed\<close> and overwrite the
  coordinates, each adding its index to \<open>edited_indices\<close>), running
  \<open>initialize_edit_tracking\<close> again on the same parse result yields a
  \<open>current\<close> list that is element-wise equal to the \<open>original\<close> list of the
  edited record, with no index marked as edited.
\<close>

theorem reset_restores_original:
  assumes "\<forall>r\<in>set (elements file_data). r < length h"
    and "initialize_edit_tracking h file_data = (h0, et0)"
    and "ui_run (h0, et0) evs = (h1, et1)"
    and "ui_reset (h1, et1) file_data = (h2, et2)"
  shows "map ((!) h2) (current et2) = map ((!) h2) (original et1) \<and>
         map ((!) h2) (original et1) = map ((!) h1) (original et1) \<and>
         edited_indices et2 = {}"
proof -
  note init = initialize_edit_tracking_spec [OF assms(1,2)]
  note r1 = ui_run_frame [OF assms(3)]
  from init(1) obtain ext0 where ext0: "h0 = h @ ext0" by blast
  have fd_not_cur: "\<forall>r\<in>set (elements file_data). r \<notin> set (current et0)"
    using assms(1) init(6) by fastforce
  have fd1: "\<forall>r\<in>set (elements file_data). r < length h1"
    using assms(1) r1 ext0 by auto
  have reinit: "initialize_edit_tracking h1 file_data = (h2, et2)"
    using assms(4) by (simp add: ui_reset_def)
  note init2 = initialize_edit_tracking_spec [OF fd1 reinit]
  from init2(1) obtain ext1 where ext1: "h2 = h1 @ ext1" by blast
  have "map ((!) h1) (elements file_data) = map ((!) h0) (elements file_data)"
    using r1 fd_not_cur by (intro map_nth_frame [where C = "set (current et0)"]) simp_all
  also have "\<dots> = map ((!) h) (elements file_data)"
    unfolding ext0 using assms(1) by (rule map_nth_append_old)
  finally have fd_same: "map ((!) h1) (elements file_data) = map ((!) h) (elements file_data)" .
  have "map ((!) h1) (original et0) = map ((!) h0) (original et0)"
    using r1 init(5) by (intro map_nth_frame [where C = "set (current et0)"]) simp_all
  then have o1: "map ((!) h1) (original et1) = map ((!) h) (elements file_data)"
    using r1 init(7) by simp
  have "\<forall>r\<in>set (original et1). r < length h1"
    using r1 init(5) by simp
  then have o2: "map ((!) h2) (original et1) = map ((!) h1) (original et1)"
    unfolding ext1 by (rule map_nth_append_old)
  show ?thesis
    using init2(2) init2(8) fd_same o1 o2 by simp
qed

theorem reset_restores_original_witness:
  "map ((!) (fst (ui_reset (ui_run (initialize_edit_tracking example_heap example_file)
                               example_events) example_file)))
       (current (snd (ui_reset (ui_run (initialize_edit_tracking example_heap example_file)
                               example_events) example_file)))
     = example_heap \<and>
   map ((!) (fst (ui_reset (ui_run (initialize_edit_tracking example_heap example_file)
                               example_events) example_file)))
       (original (snd (ui_run (initialize_edit_tracking example_heap example_file) example_events)))
     = example_heap"
  using reset_restores_original [of example_file example_heap "example_heap @ example_heap @ example_heap"
      "\<lparr>original = [2, 3], current = [4, 5], edited_indices = {}\<rparr>" example_events
      "fst (ui_run (initialize_edit_tracking example_heap example_file) example_events)"
      "snd (ui_run (initialize_edit_tracking example_heap example_file) example_events)"
      "fst (ui_reset (ui_run (initialize_edit_tracking example_heap example_file)
                               example_events) example_file)"
      "snd (ui_reset (ui_run (initialize_edit_tracking example_heap example_file)
                               example_events) example_file)"]
  by (simp add: example_init example_run example_reset)
     (simp add: example_heap_def example_file_def)

text \<open>
  Claim C3. For every edit-tracking record created by
  \<open>initialize_edit_tracking\<close> and every two consecutive runs of edit events
  (\<open>update_element_type\<close>, \<open>replace_element_with_reparsed\<close> with the
  coordinate overwrite after a region re-parse, \<open>get_edit_summary\<close>), the
  \<open>original\<close> list holds the same references and the same elements after the
  second run as before it, namely the elements of the parse result, and every
  index marked as edited before the second run is still marked after it.
\<close>

theorem original_never_mutated:
  assumes "\<forall>r\<in>set (elements file_data). r < length h"
    and "initialize_edit_tracking h file_data = (h0, et0)"
    and "ui_run (h0, et0) evs1 = (h1, et1)"
    and "ui_run (h1, et1) evs2 = (h2, et2)"
  shows "original et2 = original et1 \<and>
         map ((!) h2) (original et2) = map ((!) h1) (original et1) \<and>
         map ((!) h1) (original et1) = map ((!) h) (elements file_data) \<and>
         edited_indices et1 \<subseteq> edited_indices et2"
proof -
  note init = initialize_edit_tracking_spec [OF assms(1,2)]
  note r1 = ui_run_frame [OF assms(3)]
  note r2 = ui_run_frame [OF assms(4)]
  have disj0: "\<forall>r\<in>set (original et0). r \<notin> set (current et0)"
    using init(5) by simp
  have orig1: "original et1 = original et0" and cur1: "current et1 = current et0"
    using r1 by simp_all
  have "map ((!) h1) (original et0) = map ((!) h0) (original et0)"
    using r1 disj0 by (intro map_nth_frame [where C = "set (current et0)"]) simp_all
  then have v1: "map ((!) h1) (original et1) = map ((!) h) (elements file_data)"
    using orig1 init(7) by simp
  have "map ((!) h2) (original et1) = map ((!) h1) (original et1)"
    using r2 disj0 orig1 cur1 by (intro map_nth_frame [where C = "set (current et1)"]) simp_all
  then show ?thesis
    using r2 v1 by simp
qed

theorem original_never_mutated_witness:
  "original (snd (ui_run (initialize_edit_tracking example_heap example_file) example_events)) = [2, 3] \<and>
   map ((!) (fst (ui_run (initialize_edit_tracking example_heap example_file) example_events))) [2, 3]
     = example_heap \<and>
   edited_indices (snd (ui_run (initialize_edit_tracking example_heap example_file) example_events))
     = {1, 0}"
  using original_never_mutated [of example_file example_heap "example_heap @ example_heap @ example_heap"
      "\<lparr>original = [2, 3], current = [4, 5], edited_indices = {}\<rparr>" "[]"
      "example_heap @ example_heap @ example_heap"
      "\<lparr>original = [2, 3], current = [4, 5], edited_indices = {}\<rparr>" example_events
      "fst (ui_run (initialize_edit_tracking example_heap example_file) example_events)"
      "snd (ui_run (initialize_edit_tracking example_heap example_file) example_events)"]
  by (simp add: example_init example_run) (simp add: example_heap_def example_file_def ui_run_def)

text \<open>
  Claim C4. For every element list and every index outside \<open>[0, length)\<close>,
  \<open>update_element_type\<close> and \<open>replace_element_with_reparsed\<close> return the
  heap and the list unchanged (the functions have no raising path); for every
  index inside the range they return the same list and a heap in which the
  element at that index has its \<open>type\<close> (respectively \<open>text\<close>) set to the
  new value, its other fields as before, and every other object unchanged.
\<close>

theorem out_of_range_index_ignored:
  "(\<not> (0 \<le> i \<and> i < int (length elems)) \<longrightarrow>
      update_element_type h elems i new_type = (h, elems) \<and>
      replace_element_with_reparsed h elems i new_text = (h, elems)) \<and>
   (0 \<le> i \<and> i < int (length elems) \<and> elems ! nat i < length h \<longrightarrow>
      (\<exists>h'. update_element_type h elems i new_type = (h', elems) \<and>
            length h' = length h \<and>
            h' ! (elems ! nat i) = (h ! (elems ! nat i))\<lparr>elem_type := new_type\<rparr> \<and>
            (\<forall>r. r \<noteq> elems ! nat i \<longrightarrow> h' ! r = h ! r)) \<and>
      (\<exists>h'. replace_element_with_reparsed h elems i new_text = (h', elems) \<and>
            length h' = length h \<and>
            h' ! (elems ! nat i) = (h ! (elems ! nat i))\<lparr>elem_text := new_text\<rparr> \<and>
            (\<forall>r. r \<noteq> elems ! nat i \<longrightarrow> h' ! r = h ! r)))"
  by (simp add: update_element_type_def replace_element_with_reparsed_def)

theorem out_of_range_index_ignored_witness:
  "update_element_type example_heap [0, 1] 5 ''Header'' = (example_heap, [0, 1]) \<and>
   replace_element_with_reparsed example_heap [0, 1] (-1) ''new'' = (example_heap, [0, 1]) \<and>
   update_element_type example_heap [0, 1] 1 ''Header'' =
     ([\<lparr>elem_type = ''Title'', elem_text = ''Report'', elem_coordinates = None\<rparr>,
       \<lparr>elem_type = ''Header'', elem_text = ''a b'',
         elem_coordinates = Some [(100,100),(300,100),(300,200),(100,200)]\<rparr>], [0, 1]) \<and>
   replace_element_with_reparsed example_heap [0, 1] 1 ''new'' =
     ([\<lparr>elem_type = ''Title'', elem_text = ''Report'', elem_coordinates = None\<rparr>,
       \<lparr>elem_type = ''Table'', elem_text = ''new'',
         elem_coordinates = Some [(100,100),(300,100),(300,200),(100,200)]\<rparr>], [0, 1])"
  using out_of_range_index_ignored [of 5 "[0, 1]" example_heap "''Header''" "''new''"]
    out_of_range_index_ignored [of "-1" "[0, 1]" example_heap "''Header''" "''new''"]
    out_of_range_index_ignored [of 1 "[0, 1]" example_heap "''Header''" "''new''"]
  by (simp add: example_heap_def update_element_type_def replace_element_with_reparsed_def)

text \<open>
  Claim C7, as amended. \<open>get_edit_summary\<close> on a record with empty
  \<open>edited_indices\<close>, such as the one \<open>initialize_edit_tracking\<close> returns,
  returns the sentinel \<open>No edits made\<close>. After a single relabel of an index \<open>i\<close> of the list from
  its type \<open>A\<close> to a different type \<open>B\<close>, the output consists of exactly one
  entry, \<open>Element {i+1}: Type: A \<rightarrow> B\<close>, which is a single line when neither
  \<open>A\<close> nor \<open>B\<close> contains a line feed.
\<close>

theorem edit_summary_single_relabel:
  assumes refs: "\<forall>r\<in>set (elements file_data). r < length h"
    and init: "initialize_edit_tracking h file_data = (h0, et0)"
    and i: "0 \<le> i" "i < int (length (elements file_data))"
    and A: "elem_type (h ! (elements file_data ! nat i)) = A"
    and AB: "A \<noteq> B"
    and upd: "ui_update_type (h0, et0) i B = (h1, et1)"
  shows "(edited_indices et = {} \<longrightarrow> get_edit_summary hp et = Inr ''No edits made'') \<and>
         get_edit_summary h0 et0 = Inr ''No edits made'' \<and>
         get_edit_summary h1 et1 =
           Inr (''Element '' @ py_str (i + 1) @ '': Type: '' @ A @ '' '' @ arrow @ '' '' @ B) \<and>
         (CHR 0x0A \<notin> set A \<and> CHR 0x0A \<notin> set B \<longrightarrow>
            CHR 0x0A \<notin> set (''Element '' @ py_str (i + 1) @ '': Type: '' @ A @ '' '' @ arrow @ '' '' @ B))"
proof -
  note s = initialize_edit_tracking_spec [OF refs init]
  let ?k = "nat i"
  let ?o = "original et0 ! ?k" and ?c = "current et0 ! ?k" and ?f = "elements file_data ! ?k"
  have k: "?k < length (elements file_data)" using i by simp
  have first: "get_edit_summary h0 et0 = Inr ''No edits made''"
    using s(2) by (rule get_edit_summary_no_edits)
  have o_in: "?o \<in> set (original et0)" and c_in: "?c \<in> set (current et0)"
    using k s(3,4) by simp_all
  have oc: "?o \<noteq> ?c" using o_in c_in s(5) by auto
  have c_lt: "?c < length h0" using c_in s(6) by simp
  have o_val: "h0 ! ?o = h ! ?f" using s(7) k by (rule map_nth_eq_at)
  have c_val: "h0 ! ?c = h ! ?f" using s(8) k by (rule map_nth_eq_at)
  have h1: "h1 = h0[?c := (h0 ! ?c)\<lparr>elem_type := B\<rparr>]"
    and et1: "et1 = et0\<lparr>edited_indices := {i}\<rparr>"
    using upd i s(2,4) by (simp_all add: ui_update_type_def update_element_type_def)
  have o1: "h1 ! ?o = h ! ?f" using h1 oc o_val by simp
  have c1: "h1 ! ?c = (h ! ?f)\<lparr>elem_type := B\<rparr>" using h1 c_lt c_val by simp
  have io: "py_index (original et1) i = Inr ?o" and ic: "py_index (current et1) i = Inr ?c"
    using i s(3,4) et1 by (simp_all add: py_index_in_range)
  have ch: "element_changes (h1 ! ?o) (h1 ! ?c) = [''Type: '' @ A @ '' '' @ arrow @ '' '' @ B]"
    using A AB o1 c1 by (simp add: element_changes_def)
  have loop: "summary_loop h1 et1 [i] [] =
      Inr [''Element '' @ py_str (i + 1) @ '': Type: '' @ A @ '' '' @ arrow @ '' '' @ B]"
    using io ic ch by simp
  have second: "get_edit_summary h1 et1 =
      Inr (''Element '' @ py_str (i + 1) @ '': Type: '' @ A @ '' '' @ arrow @ '' '' @ B)"
    using loop et1 by (simp add: get_edit_summary_def)
  have third: "CHR 0x0A \<notin> set A \<and> CHR 0x0A \<notin> set B \<longrightarrow>
            CHR 0x0A \<notin> set (''Element '' @ py_str (i + 1) @ '': Type: '' @ A @ '' '' @ arrow @ '' '' @ B)"
    by (simp add: py_str_no_newline arrow_def)
  have general: "edited_indices et = {} \<longrightarrow> get_edit_summary hp et = Inr ''No edits made''"
    by (simp add: get_edit_summary_no_edits)
  show ?thesis using general first second third by blast
qed

theorem edit_summary_single_relabel_witness:
  "get_edit_summary (fst (initialize_edit_tracking example_heap example_file))
       (snd (initialize_edit_tracking example_heap example_file)) = Inr ''No edits made'' \<and>
   get_edit_summary
       (fst (ui_update_type (initialize_edit_tracking example_heap example_file) 0 ''Header''))
       (snd (ui_update_type (initialize_edit_tracking example_heap example_file) 0 ''Header''))
     = Inr (''Element 1: Type: Title '' @ arrow @ '' Header'')"
  using edit_summary_single_relabel [of example_file example_heap "example_heap @ example_heap @ example_heap"
      "\<lparr>original = [2, 3], current = [4, 5], edited_indices = {}\<rparr>" 0 "''Title''" "''Header''"
      "fst (ui_update_type (initialize_edit_tracking example_heap example_file) 0 ''Header'')"
      "snd (ui_update_type (initialize_edit_tracking example_heap example_file) 0 ''Header'')"]
  by (simp add: example_init example_update)
     (simp add: example_heap_def example_file_def py_str_def digits.simps)

text \<open>
  The claim without "different" fails: relabelling element 1 of the example from
  \<open>Title\<close> to \<open>Title\<close> marks index 0 as edited, and the summary is the empty
  string, which has no line that mentions element 1.
\<close>

theorem edit_summary_same_type_empty:
  "get_edit_summary
       (fst (ui_update_type (initialize_edit_tracking example_heap example_file) 0 ''Title''))
       (snd (ui_update_type (initialize_edit_tracking example_heap example_file) 0 ''Title''))
     = Inr []"
  by (simp add: example_init example_update)
     (simp add: get_edit_summary_def py_index_def element_changes_def example_heap_def)

section \<open>Claims about the overlay renderer\<close>

text \<open>
  Claim C9. For every element list, the formatted text that
  \<open>create_side_by_side_view\<close> returns is the specification's text: one entry
  per element in list order, each the header with the element's 1-based
  position in the full list (or the bare type when numbers are off), the
  element's text and the separator line of 50 dashes, all joined by newlines;
  the polygons drawn are those of the elements that have coordinates, in order.
  The function returns whenever the image opens and every polygon present has
  at least two points; elements without coordinates never prevent it, and with
  all coordinates absent the same text is returned and nothing is drawn. With
  a polygon of fewer than two points it raises \<open>TypeError\<close> from the drawing
  call, and it passes on the exception of a failed image load; no text is
  returned then.
\<close>

theorem formatted_text_lists_every_element:
  "(\<forall>annotated_img formatted_text.
      create_side_by_side_view open_image image_path elems box_width transparency show_numbers
          color_scheme = Inr (annotated_img, formatted_text) \<longrightarrow>
        formatted_text = spec_formatted_text show_numbers elems \<and>
        List.map_filter polygon_of annotated_img = List.map_filter elem_coordinates elems) \<and>
   (open_image image_path = Inr img \<and> list_all polygon_accepted elems \<longrightarrow>
      (\<exists>annotated_img.
         create_side_by_side_view open_image image_path elems box_width transparency show_numbers
             color_scheme = Inr (annotated_img, spec_formatted_text show_numbers elems))) \<and>
   (open_image image_path = Inr img \<longrightarrow>
      (\<exists>annotated_img.
         create_side_by_side_view open_image image_path
             (map (\<lambda>e. e\<lparr>elem_coordinates := None\<rparr>) elems) box_width transparency show_numbers
             color_scheme = Inr (annotated_img, spec_formatted_text show_numbers elems) \<and>
         List.map_filter polygon_of annotated_img = [])) \<and>
   (open_image image_path = Inr img \<and> \<not> list_all polygon_accepted elems \<longrightarrow>
      create_side_by_side_view open_image image_path elems box_width transparency show_numbers
          color_scheme = Inl TypeError) \<and>
   (open_image image_path = Inl err \<longrightarrow>
      create_side_by_side_view open_image image_path elems box_width transparency show_numbers
          color_scheme = Inl err)"
proof -
  have returned: "formatted_text = spec_formatted_text show_numbers elems \<and>
        List.map_filter polygon_of annotated_img = List.map_filter elem_coordinates elems"
    if ret: "create_side_by_side_view open_image image_path elems box_width transparency
          show_numbers color_scheme = Inr (annotated_img, formatted_text)"
    for annotated_img formatted_text
  proof -
    have text_eq: "formatted_text = spec_formatted_text show_numbers elems"
      using ret by (rule create_side_by_side_view_text)
    obtain sz where opened: "open_image image_path = Inr sz"
      using ret create_side_by_side_view_no_image [of open_image image_path]
      by (cases "open_image image_path") auto
    have acc: "list_all polygon_accepted elems"
      using ret opened
        create_side_by_side_view_rejected [of open_image image_path sz elems box_width
          transparency show_numbers color_scheme]
      by auto
    from create_side_by_side_view_accepted [of open_image image_path sz elems box_width
        transparency show_numbers color_scheme, OF opened acc]
    have "List.map_filter polygon_of annotated_img = List.map_filter elem_coordinates elems"
      using ret by auto
    then show ?thesis using text_eq by simp
  qed
  have erased: "\<exists>annotated_img.
         create_side_by_side_view open_image image_path
             (map (\<lambda>e. e\<lparr>elem_coordinates := None\<rparr>) elems) box_width transparency show_numbers
             color_scheme = Inr (annotated_img, spec_formatted_text show_numbers elems) \<and>
         List.map_filter polygon_of annotated_img = []"
    if "open_image image_path = Inr img"
    using create_side_by_side_view_accepted [of open_image image_path img
        "map (\<lambda>e. e\<lparr>elem_coordinates := None\<rparr>) elems" box_width transparency show_numbers
        color_scheme, OF that erased_coordinates_accepted]
    by (simp add: erased_coordinates_no_polygon
        spec_formatted_text_coordinates [of show_numbers "\<lambda>e. None" elems])
  show ?thesis
    using returned erased create_side_by_side_view_accepted [of open_image image_path img elems]
      create_side_by_side_view_rejected [of open_image image_path img elems]
      create_side_by_side_view_no_image [of open_image image_path err]
    by blast
qed

theorem formatted_text_lists_every_element_witness:
  "example_images ''data/page.tif'' = Inr (400, 300) \<and>
   list_all polygon_accepted example_heap \<and>
   create_side_by_side_view example_images ''data/page.tif'' example_heap 7 0.7 True ''Default'' =
     Inr ([Polygon [(100,100),(300,100),(300,200),(100,200)] (255, 165, 0) 178 7,
           NumberLabel (100, 100) ''2'' (255, 165, 0) 178],
          ''[1] Title'' @ newline @ ''Report'' @ newline @ replicate 50 (CHR ''-'') @ newline @
          ''[2] Table'' @ newline @ ''a b'' @ newline @ replicate 50 (CHR ''-'')) \<and>
   \<not> list_all polygon_accepted
       [\<lparr>elem_type = ''Title'', elem_text = ''Report'', elem_coordinates = Some [(10,10)]\<rparr>] \<and>
   create_side_by_side_view example_images ''data/page.tif''
       [\<lparr>elem_type = ''Title'', elem_text = ''Report'', elem_coordinates = Some [(10,10)]\<rparr>]
       7 0.7 True ''Default'' = Inl TypeError"
  using formatted_text_lists_every_element [of example_images "''data/page.tif''" example_heap 7 "0.7" True "''Default''" "(400, 300)"]
    formatted_text_lists_every_element [of example_images "''data/page.tif''"
       "[\<lparr>elem_type = ''Title'', elem_text = ''Report'', elem_coordinates = Some [(10,10)]\<rparr>]"
       7 "0.7" True "''Default''" "(400, 300)"]
  by (simp add: create_side_by_side_view_def draw_bounding_boxes_def get_color_scheme_def
      COLOR_SCHEMES_def DEFAULT_COLOR_def polygon_accepted_def example_images_def example_heap_def
      newline_def py_str_def digits.simps py_int_def Let_def)

section \<open>Claims about file discovery\<close>

text \<open>
  Claim C8 says that \<open>scan_data_folder\<close> returns the files whose extension is
  \<open>.tiff\<close> or \<open>.tif\<close> in any letter case. The four patterns of the code
  cover the all-lower-case and all-upper-case spellings only: in the example
  folder the file \<open>scan.Tiff\<close> is not returned.
\<close>

theorem scan_data_folder_misses_mixed_case:
  "scan_data_folder example_fs ''data'' = Inr [''data/b.tif'']"
  by (simp add: scan_data_folder_def example_fs_def path_glob_def glob_star_def path_str_def
      path_root_def path_parts_def)

end
